theory Spec2Isabelle
  imports Complex_Main "HOL-Library.AList"
begin

section \<open>Data model\<close>

text \<open>
  The forecasting pipeline works on pandas frames. A history frame is a list of bars in
  row order; a forecast ensemble is the list of its columns, one sampled path per column,
  every path holding one value per horizon step. Prices are reals (the model is exact
  arithmetic over positive, finite prices); the one missing value pandas produces on such
  data, the NaN that \<^verbatim>\<open>shift(1)\<close> puts in front of a series, is \<open>None\<close>.
  Sizes read from the configuration (\<^verbatim>\<open>pred_horizon\<close>, \<^verbatim>\<open>vol_window\<close>, ...) are
  natural numbers. A raised Python exception is the \<open>Inl\<close> of a sum.
\<close>

datatype exn =
    IndexError
  | ValueError
  | ZeroDivisionError
  | AttributeError
  | RuntimeError
  | OracleError
  | ModelLoadError
  | OutOfBoundsDatetime
  | OSError

record bar =
  timestamps :: int
  open_price :: real
  high :: real
  low :: real
  close :: real
  volume :: real
  amount :: real

type_synonym frame = "bar list"

type_synonym ensemble = "real list list"

type_synonym series = "real option list"

section \<open>pandas primitives used by the pipeline\<close>

definition n_rows :: "ensemble \<Rightarrow> nat" where
  "n_rows f = (case f of [] \<Rightarrow> 0 | c # _ \<Rightarrow> length c)"

definition iloc_last :: "'a list \<Rightarrow> exn + 'a" where
  \<comment> \<open>\<^verbatim>\<open>s.iloc[-1]\<close>: raises on an empty series.\<close>
  "iloc_last xs = (if xs = [] then Inl IndexError else Inr (last xs))"

definition last_row :: "ensemble \<Rightarrow> exn + real list" where
  \<comment> \<open>\<^verbatim>\<open>df.iloc[-1]\<close> on a frame of paths: the final horizon step of every path.\<close>
  "last_row f = (if n_rows f = 0 then Inl IndexError else Inr (map last f))"

definition tail :: "nat \<Rightarrow> 'a list \<Rightarrow> 'a list" where
  \<comment> \<open>\<^verbatim>\<open>df.tail(n)\<close>: the last \<open>n\<close> rows, all of them when there are fewer.\<close>
  "tail n xs = drop (length xs - n) xs"

definition iloc_from_end :: "nat \<Rightarrow> 'a list \<Rightarrow> 'a list" where
  \<comment> \<open>\<^verbatim>\<open>s.iloc[-n:]\<close>: the last \<open>n\<close> entries; \<^verbatim>\<open>-0\<close> is \<^verbatim>\<open>0\<close>, so \<open>n = 0\<close> keeps everything.\<close>
  "iloc_from_end n xs = (if n = 0 then xs else drop (length xs - n) xs)"

definition log_returns :: "real list \<Rightarrow> series" where
  \<comment> \<open>\<^verbatim>\<open>np.log(s / s.shift(1))\<close>: NaN first, then \<open>ln (s[t] / s[t-1])\<close>.\<close>
  "log_returns xs =
     (case xs of [] \<Rightarrow> []
      | _ # rest \<Rightarrow> None # map (\<lambda>(a, b). Some (ln (b / a))) (zip xs rest))"

definition dropna :: "series \<Rightarrow> real list" where
  "dropna s = concat (map (\<lambda>v. case v of None \<Rightarrow> [] | Some x \<Rightarrow> [x]) s)"

definition sample_std :: "real list \<Rightarrow> real option" where
  \<comment> \<open>Standard deviation with \<^verbatim>\<open>ddof=1\<close>: NaN below two observations.\<close>
  "sample_std vs =
     (let n = length vs in
      if n < 2 then None
      else let m = sum_list vs / real n
           in Some (sqrt (sum_list (map (\<lambda>v. (v - m)\<^sup>2) vs) / real (n - 1))))"

definition std :: "series \<Rightarrow> real option" where
  \<comment> \<open>\<^verbatim>\<open>Series.std()\<close>: NaN entries are skipped.\<close>
  "std s = sample_std (dropna s)"

definition gt_nan :: "real option \<Rightarrow> real option \<Rightarrow> bool" where
  \<comment> \<open>\<^verbatim>\<open>a > b\<close> on floats: false as soon as one side is NaN.\<close>
  "gt_nan a b = (case (a, b) of (Some x, Some y) \<Rightarrow> y < x | _ \<Rightarrow> False)"

definition mean_bool :: "bool list \<Rightarrow> real" where
  \<comment> \<open>\<^verbatim>\<open>.mean()\<close> of a boolean series; only reached on a non-empty one.\<close>
  "mean_bool bs = real (length (filter id bs)) / real (length bs)"

section \<open>core/pipeline.py: calculate\_metrics\<close>

definition historical_vol :: "frame \<Rightarrow> nat \<Rightarrow> real option" where
  "historical_vol hist_df vol_window =
     std (iloc_from_end vol_window (log_returns (map close hist_df)))"

definition predicted_vol :: "real \<Rightarrow> real list \<Rightarrow> real option" where
  "predicted_vol last_close col = std (log_returns (last_close # col))"

primrec count_amplified :: "real \<Rightarrow> real option \<Rightarrow> ensemble \<Rightarrow> nat \<Rightarrow> nat" where
  "count_amplified last_close hv [] amplification_count = amplification_count"
| "count_amplified last_close hv (col # cols) amplification_count =
     count_amplified last_close hv cols
       (if gt_nan (predicted_vol last_close col) hv
        then amplification_count + 1 else amplification_count)"

definition calculate_metrics ::
  "frame \<Rightarrow> ensemble \<Rightarrow> ensemble \<Rightarrow> nat \<Rightarrow> exn + (real \<times> real)" where
  "calculate_metrics hist_df close_preds_df v_close_preds_df vol_window =
     (case iloc_last (map close hist_df) of
        Inl e \<Rightarrow> Inl e
      | Inr last_close \<Rightarrow>
         (case last_row close_preds_df of
            Inl e \<Rightarrow> Inl e
          | Inr final_hour_preds \<Rightarrow>
             (let upside_prob = mean_bool (map (\<lambda>p. last_close < p) final_hour_preds);
                  hv = historical_vol hist_df vol_window;
                  amplification_count = count_amplified last_close hv v_close_preds_df 0
              in if length v_close_preds_df = 0 then Inl ZeroDivisionError
                 else Inr (upside_prob,
                           real amplification_count / real (length v_close_preds_df)))))"

section \<open>core/pipeline.py: the future time axis of make\_prediction\<close>

text \<open>
  Timestamps are integers counting nanoseconds, the resolution of a pandas timestamp, which
  is a signed 64-bit count: an addition or a range that passes \<open>timestamp_max\<close> raises. The
  characters of a string are the code points below 256.
\<close>

definition timestamp_max :: int where
  "timestamp_max = 9223372036854775807"

definition lower_char :: "char \<Rightarrow> char" where
  "lower_char c =
     (let n = (of_char c :: nat)
      in if (65 \<le> n \<and> n \<le> 90) \<or> (192 \<le> n \<and> n \<le> 222 \<and> n \<noteq> 215)
         then char_of (n + 32) else c)"

definition lower :: "string \<Rightarrow> string" where
  "lower s = map lower_char s"

datatype freq = Daily | Hourly | Minutely

definition classify_interval :: "string \<Rightarrow> freq" where
  "classify_interval interval =
     (if CHR ''d'' \<in> set (lower interval) then Daily
      else if CHR ''h'' \<in> set (lower interval) then Hourly
      else Minutely)"

definition timedelta :: "freq \<Rightarrow> int" where
  "timedelta f =
     (case f of Daily \<Rightarrow> 86400000000000 | Hourly \<Rightarrow> 3600000000000 | Minutely \<Rightarrow> 60000000000)"

definition series_max :: "int list \<Rightarrow> int" where
  \<comment> \<open>\<^verbatim>\<open>df['timestamps'].max()\<close> on a non-empty column.\<close>
  "series_max ts = fold max (tl ts) (hd ts)"

definition date_range :: "int \<Rightarrow> nat \<Rightarrow> int \<Rightarrow> int list" where
  \<comment> \<open>\<^verbatim>\<open>pd.date_range(start, periods, freq)\<close> for a fixed-length frequency.\<close>
  "date_range start periods td = map (\<lambda>k. start + int k * td) [0..<periods]"

definition future_axis :: "frame \<Rightarrow> nat \<Rightarrow> string \<Rightarrow> exn + int list" where
  \<comment> \<open>The maximum of an empty column is NaT, which \<^verbatim>\<open>date_range\<close> rejects. The start
      \<^verbatim>\<open>last_timestamp + td\<close> and the last point of the range must be representable.\<close>
  "future_axis df pred_horizon interval =
     (if df = [] then Inl ValueError
      else let last_timestamp = series_max (map timestamps df);
               td = timedelta (classify_interval interval);
               start_new_range = last_timestamp + td
           in if timestamp_max < start_new_range then Inl OutOfBoundsDatetime
              else if timestamp_max < start_new_range + (int pred_horizon - 1) * td
              then Inl OutOfBoundsDatetime
              else Inr (date_range start_new_range pred_horizon td))"

section \<open>External collaborators\<close>

text \<open>
  One cycle runs against a world: the data providers behind
  \<^verbatim>\<open>DataSourceManager.fetch\<close> (the fetch functions catch their own exceptions and
  return \<^verbatim>\<open>None\<close>), the predictor, whether plotting a chart goes through, whether
  loading the model goes through, the chart directory that mock mode lists (\<open>None\<close> when
  it does not exist, else the stems of its PNG files), and the web generator. Every call
  to a collaborator is recorded as an event, in program order.
\<close>

record report_entry =
  entry_upside_prob :: real
  entry_vol_amp_prob :: real
  entry_chart_path :: string

type_synonym report = "(string \<times> report_entry) list"

datatype event =
    LoadModel
  | Fetch string string
  | Predict real
  | Render string
  | Publish report

type_synonym predictor =
  "frame \<Rightarrow> int list \<Rightarrow> nat \<Rightarrow> real \<Rightarrow> real \<Rightarrow> nat \<Rightarrow> exn + (ensemble \<times> ensemble)"

record world =
  fetch :: "string \<Rightarrow> string \<Rightarrow> string \<Rightarrow> nat \<Rightarrow> frame option"
  predict :: predictor
  plot_ok :: "frame \<Rightarrow> ensemble \<Rightarrow> ensemble \<Rightarrow> string \<Rightarrow> bool"
  load_ok :: bool
  charts_dir :: "string list option"
  publish :: "report \<Rightarrow> exn + string"

section \<open>core/pipeline.py: make\_prediction and create\_plot\<close>

definition make_prediction ::
  "predictor \<Rightarrow> frame \<Rightarrow> nat \<Rightarrow> nat \<Rightarrow> string
     \<Rightarrow> event list \<times> (exn + (ensemble \<times> ensemble \<times> ensemble))" where
  "make_prediction pred df pred_horizon n_predictions interval =
     (case future_axis df pred_horizon interval of
        Inl e \<Rightarrow> ([], Inl e)
      | Inr y_timestamp \<Rightarrow>
         (case pred df y_timestamp pred_horizon (6 / 10) (9 / 10) n_predictions of
            Inl e \<Rightarrow> ([Predict (6 / 10)], Inl e)
          | Inr (close_preds_main, volume_preds_main) \<Rightarrow>
             (case pred df y_timestamp pred_horizon (9 / 10) (9 / 10) n_predictions of
                Inl e \<Rightarrow> ([Predict (6 / 10), Predict (9 / 10)], Inl e)
              | Inr (close_preds_volatility, _) \<Rightarrow>
                 ([Predict (6 / 10), Predict (9 / 10)],
                  Inr (close_preds_main, volume_preds_main, close_preds_volatility)))))"

definition create_plot ::
  "world \<Rightarrow> frame \<Rightarrow> ensemble \<Rightarrow> ensemble \<Rightarrow> string \<Rightarrow> string option" where
  \<comment> \<open>The whole body sits in \<^verbatim>\<open>try\<close>; any exception makes it return \<^verbatim>\<open>None\<close>.\<close>
  "create_plot w hist_df close_preds_df volume_preds_df symbol =
     (if plot_ok w hist_df close_preds_df volume_preds_df symbol
      then Some (''docs/static/chart/'' @ symbol @ ''.png'')
      else None)"

section \<open>core/engine.py\<close>

record forecast_result =
  upside_prob :: real
  vol_amp_prob :: real
  chart_path :: "string option"

definition hist_df_for_metrics :: "frame \<Rightarrow> nat \<Rightarrow> frame" where
  "hist_df_for_metrics df_for_model vol_window = tail vol_window df_for_model"

definition run_for_symbol ::
  "world \<Rightarrow> frame option \<Rightarrow> string \<Rightarrow> nat \<Rightarrow> nat \<Rightarrow> nat \<Rightarrow> nat \<Rightarrow> string
     \<Rightarrow> event list \<times> (exn + forecast_result option)" where
  "run_for_symbol w df_full symbol pred_horizon n_predictions hist_points vol_window interval =
     (case df_full of
        None \<Rightarrow> ([], Inr None)
      | Some df \<Rightarrow>
         if df = [] then ([], Inr None)
         else
           let df_for_model = butlast df in
           (case make_prediction (predict w) df_for_model pred_horizon n_predictions interval of
              (evs, Inl e) \<Rightarrow> (evs, Inl e)
            | (evs, Inr (close_preds, volume_preds, v_close_preds)) \<Rightarrow>
               let hist_df_for_plot = tail hist_points df_for_model in
               (case calculate_metrics (hist_df_for_metrics df_for_model vol_window)
                       close_preds v_close_preds vol_window of
                  Inl e \<Rightarrow> (evs, Inl e)
                | Inr (up, va) \<Rightarrow>
                   (evs @ [Render symbol],
                    Inr (Some \<lparr>upside_prob = up, vol_amp_prob = va,
                               chart_path = create_plot w hist_df_for_plot close_preds
                                              volume_preds symbol\<rparr>)))))"

section \<open>core/config.py and core/data\_source.py\<close>

record common_config =
  pred_horizon :: nat
  n_predictions :: nat
  hist_points :: nat
  vol_window :: nat
  update_interval_minutes :: nat

record source_config =
  symbols :: string
  interval :: string

type_synonym config = "string \<Rightarrow> source_config option"

definition available :: "string list" where
  "available = [''binance'', ''akshare'']"

section \<open>main.py: KronosForecastingApp\<close>

record app =
  mock :: bool
  model_loaded :: bool
  artifacts :: bool

definition init_app :: "bool \<Rightarrow> app" where
  "init_app mock_flag = \<lparr>mock = mock_flag, model_loaded = False, artifacts = False\<rparr>"

definition is_space :: "char \<Rightarrow> bool" where
  \<comment> \<open>The whitespace that \<^verbatim>\<open>str.strip()\<close> removes, among the code points below 256.\<close>
  "is_space ch =
     (let n = (of_char ch :: nat)
      in (9 \<le> n \<and> n \<le> 13) \<or> (28 \<le> n \<and> n \<le> 32) \<or> n = 133 \<or> n = 160)"

definition strip :: "string \<Rightarrow> string" where
  "strip s = rev (dropWhile is_space (rev (dropWhile is_space s)))"

fun split_comma :: "string \<Rightarrow> string list" where
  "split_comma [] = [[]]"
| "split_comma (ch # cs) =
     (if ch = CHR '','' then [] # split_comma cs
      else (case split_comma cs of [] \<Rightarrow> [[ch]] | wd # wds \<Rightarrow> (ch # wd) # wds))"

definition relative_to :: "string \<Rightarrow> string \<Rightarrow> exn + string" where
  \<comment> \<open>\<^verbatim>\<open>path.relative_to(base)\<close>: raises unless \<open>base\<close> is a parent of \<open>path\<close>.\<close>
  "relative_to path base =
     (if take (length base + 1) path = base @ ''/''
      then Inr (drop (length base + 1) path) else Inl ValueError)"

definition ensure_model_loaded :: "world \<Rightarrow> app \<Rightarrow> app \<times> event list \<times> (exn + unit)" where
  \<comment> \<open>\<^verbatim>\<open>ModelManager.load\<close> stores the artifacts as its last step, so a load that raises
      leaves both flags as they were.\<close>
  "ensure_model_loaded w a =
     (if \<not> model_loaded a \<and> \<not> mock a
      then (if load_ok w
            then (a\<lparr>model_loaded := True, artifacts := True\<rparr>, [LoadModel], Inr ())
            else (a, [LoadModel], Inl ModelLoadError))
      else (a, [], Inr ()))"

definition mock_entry :: "string \<Rightarrow> report_entry" where
  "mock_entry symbol =
     \<lparr>entry_upside_prob = 5 / 10, entry_vol_amp_prob = 5 / 10,
      entry_chart_path = ''static/chart/'' @ symbol @ ''.png''\<rparr>"

primrec mock_loop :: "string list \<Rightarrow> report \<Rightarrow> report" where
  "mock_loop [] metrics = metrics"
| "mock_loop (symbol # chart_files) metrics =
     mock_loop chart_files (AList.update symbol (mock_entry symbol) metrics)"

definition run_mock_mode :: "world \<Rightarrow> report" where
  "run_mock_mode w =
     (case charts_dir w of None \<Rightarrow> [] | Some chart_files \<Rightarrow> mock_loop chart_files [])"

fun run_symbols ::
  "world \<Rightarrow> common_config \<Rightarrow> string \<Rightarrow> string \<Rightarrow> string list \<Rightarrow> event list \<Rightarrow> report
     \<Rightarrow> event list \<times> (exn + report)" where
  "run_symbols w c source_name itv [] tr metrics = (tr, Inr metrics)"
| "run_symbols w c source_name itv (symbol # rest) tr metrics =
     (let total_points = hist_points c + vol_window c;
          df_full = fetch w source_name symbol itv total_points;
          tr1 = tr @ [Fetch source_name symbol]
      in if df_full = None \<or> df_full = Some []
         then run_symbols w c source_name itv rest tr1 metrics
         else
           (case run_for_symbol w df_full symbol (pred_horizon c) (n_predictions c)
                   (hist_points c) (vol_window c) itv of
              (evs, Inl e) \<Rightarrow> (tr1 @ evs, Inl e)
            | (evs, Inr None) \<Rightarrow> run_symbols w c source_name itv rest (tr1 @ evs) metrics
            | (evs, Inr (Some result)) \<Rightarrow>
               (case chart_path result of
                  None \<Rightarrow> (tr1 @ evs, Inl AttributeError)
                | Some path \<Rightarrow>
                   (case relative_to path ''docs'' of
                      Inl e \<Rightarrow> (tr1 @ evs, Inl e)
                    | Inr rel \<Rightarrow>
                       run_symbols w c source_name itv rest (tr1 @ evs)
                         (AList.update symbol
                            \<lparr>entry_upside_prob = upside_prob result,
                             entry_vol_amp_prob = vol_amp_prob result,
                             entry_chart_path = rel\<rparr> metrics)))))"

fun run_sources ::
  "world \<Rightarrow> config \<Rightarrow> common_config \<Rightarrow> string list \<Rightarrow> event list \<Rightarrow> report
     \<Rightarrow> event list \<times> (exn + report)" where
  "run_sources w cfg c [] tr metrics = (tr, Inr metrics)"
| "run_sources w cfg c (source_name # rest) tr metrics =
     (case cfg source_name of
        None \<Rightarrow> run_sources w cfg c rest tr metrics
      | Some sc \<Rightarrow>
         (case run_symbols w c source_name (interval sc)
                 (map strip (split_comma (symbols sc))) tr metrics of
            (tr', Inl e) \<Rightarrow> (tr', Inl e)
          | (tr', Inr metrics') \<Rightarrow> run_sources w cfg c rest tr' metrics'))"

definition run_inference_mode ::
  "world \<Rightarrow> config \<Rightarrow> common_config \<Rightarrow> app \<Rightarrow> app \<times> event list \<times> (exn + report)" where
  "run_inference_mode w cfg c a =
     (case ensure_model_loaded w a of
        (a', evs, Inl e) \<Rightarrow> (a', evs, Inl e)
      | (a', evs, Inr _) \<Rightarrow>
         if \<not> artifacts a' then (a', evs, Inl RuntimeError)
         else (case run_sources w cfg c available evs [] of (tr, r) \<Rightarrow> (a', tr, r)))"

definition run_forecast ::
  "world \<Rightarrow> config \<Rightarrow> common_config \<Rightarrow> app \<Rightarrow> app \<times> event list \<times> bool" where
  \<comment> \<open>The \<^verbatim>\<open>except Exception\<close> around the whole cycle turns every exception into \<open>False\<close>.\<close>
  "run_forecast w cfg c a =
     (case (if mock a then (a, [], Inr (run_mock_mode w)) else run_inference_mode w cfg c a) of
        (a', tr, Inl e) \<Rightarrow> (a', tr, False)
      | (a', tr, Inr metrics) \<Rightarrow>
         if metrics = [] then (a', tr, False)
         else (case publish w metrics of
                 Inl e \<Rightarrow> (a', tr @ [Publish metrics], False)
               | Inr output_path \<Rightarrow> (a', tr @ [Publish metrics], True)))"


section \<open>Well-formed inputs and reference definitions\<close>

definition wf_ensemble :: "nat \<Rightarrow> ensemble \<Rightarrow> bool" where
  \<comment> \<open>A non-empty ensemble: at least one path, every path of the same length \<open>h \<ge> 1\<close>.\<close>
  "wf_ensemble h f = (f \<noteq> [] \<and> 0 < h \<and> list_all (\<lambda>col. length col = h) f)"

definition spec_log_returns :: "real list \<Rightarrow> real list" where
  \<comment> \<open>The specification's wording: the log returns \<open>ln (close[t] / close[t-1])\<close>.\<close>
  "spec_log_returns closes = map (\<lambda>(a, b). ln (b / a)) (zip closes (tl closes))"

definition spec_historical_vol :: "real list \<Rightarrow> nat \<Rightarrow> real option" where
  \<comment> \<open>The specification's wording: the sample standard deviation of the most recent
      \<open>vol_window\<close> log returns of a history.\<close>
  "spec_historical_vol closes w =
     (let returns = spec_log_returns closes
      in if length returns < w then None
         else sample_std (drop (length returns - w) returns))"

definition is_publish :: "event \<Rightarrow> bool" where
  "is_publish ev = (case ev of Publish _ \<Rightarrow> True | _ \<Rightarrow> False)"

definition is_provider_or_oracle :: "event \<Rightarrow> bool" where
  "is_provider_or_oracle ev =
     (case ev of LoadModel \<Rightarrow> True | Fetch _ _ \<Rightarrow> True | Predict _ \<Rightarrow> True | _ \<Rightarrow> False)"

definition is_instrument_event :: "event \<Rightarrow> bool" where
  "is_instrument_event ev =
     (case ev of Fetch _ _ \<Rightarrow> True | Predict _ \<Rightarrow> True | Render _ \<Rightarrow> True | _ \<Rightarrow> False)"

subsection \<open>Example inputs\<close>

definition flat_bar :: "int \<Rightarrow> real \<Rightarrow> bar" where
  "flat_bar t c =
     \<lparr>timestamps = t, open_price = c, high = c, low = c, close = c, volume = 1, amount = c\<rparr>"

definition flat_frame :: "real \<Rightarrow> frame" where
  "flat_frame c = [flat_bar 0 c, flat_bar 1 c, flat_bar 2 c, flat_bar 3 c]"

definition step_frame :: frame where
  "step_frame = [flat_bar 0 1, flat_bar 1 2, flat_bar 2 2, flat_bar 3 2, flat_bar 4 2]"

definition step_world :: world where
  "step_world =
     \<lparr>fetch = (\<lambda>source_name symbol itv limit. Some step_frame),
      predict = (\<lambda>df y_timestamp pred_len T top_p sample_count.
                   Inr ([[2, 2, 4]], [[1, 1, 1]])),
      plot_ok = (\<lambda>hist_df close_preds volume_preds symbol. True),
      load_ok = True,
      charts_dir = None,
      publish = (\<lambda>metrics. Inr ''docs/index.html'')\<rparr>"

definition demo_config :: config where
  "demo_config =
     (\<lambda>name. if name = ''binance''
              then Some \<lparr>symbols = ''A, B'', interval = ''1h''\<rparr> else None)"

definition demo_common :: common_config where
  "demo_common =
     \<lparr>pred_horizon = 2, n_predictions = 1, hist_points = 2, vol_window = 2,
      update_interval_minutes = 60\<rparr>"

definition demo_world :: world where
  "demo_world =
     \<lparr>fetch = (\<lambda>source_name symbol itv limit.
                 if symbol = ''A'' then Some (flat_frame 1) else Some (flat_frame 3)),
      predict = (\<lambda>df y_timestamp pred_len T top_p sample_count. Inr ([[2, 4]], [[1, 1]])),
      plot_ok = (\<lambda>hist_df close_preds volume_preds symbol. True),
      load_ok = True,
      charts_dir = Some [''A'', ''B''],
      publish = (\<lambda>metrics. Inr ''docs/index.html'')\<rparr>"

lemmas pipeline_defs =
  run_for_symbol_def make_prediction_def future_axis_def calculate_metrics_def iloc_last_def
  last_row_def n_rows_def hist_df_for_metrics_def tail_def mean_bool_def historical_vol_def
  iloc_from_end_def log_returns_def std_def dropna_def sample_std_def predicted_vol_def
  gt_nan_def create_plot_def relative_to_def classify_interval_def lower_def
  lower_char_def timedelta_def series_max_def timestamp_max_def

lemmas app_defs =
  run_forecast_def init_app_def run_inference_mode_def ensure_model_loaded_def available_def
  strip_def is_space_def run_mock_mode_def mock_entry_def

lemmas demo_defs = demo_world_def demo_config_def demo_common_def flat_frame_def flat_bar_def

definition render_fail_world :: world where
  "render_fail_world =
     demo_world\<lparr>plot_ok := (\<lambda>hist_df close_preds volume_preds symbol. symbol \<noteq> ''A'')\<rparr>"

definition oracle_fail_world :: world where
  "oracle_fail_world =
     demo_world\<lparr>predict := (\<lambda>df y_timestamp pred_len T top_p sample_count.
        if map close df = [1, 1, 1] then Inl OracleError else Inr ([[2, 4]], [[1, 1]]))\<rparr>"

definition oracle_fail_hot_world :: world where
  "oracle_fail_hot_world =
     demo_world\<lparr>predict := (\<lambda>df y_timestamp pred_len T top_p sample_count.
        if map close df = [1, 1, 1] \<and> T = 9 / 10 then Inl OracleError
        else Inr ([[2, 4]], [[1, 1]]))\<rparr>"

definition publish_fail_world :: world where
  "publish_fail_world = demo_world\<lparr>publish := (\<lambda>metrics. Inl OSError)\<rparr>"

definition provider_fail_world :: world where
  "provider_fail_world =
     demo_world\<lparr>fetch := (\<lambda>source_name symbol itv limit.
        if symbol = ''A'' then None else Some (flat_frame 3))\<rparr>"

definition no_data_world :: world where
  "no_data_world = demo_world\<lparr>fetch := (\<lambda>source_name symbol itv limit. None)\<rparr>"

definition load_fail_world :: world where
  "load_fail_world = demo_world\<lparr>load_ok := False\<rparr>"

definition loaded_app :: app where
  "loaded_app = \<lparr>mock = False, model_loaded = True, artifacts = True\<rparr>"

definition entry_A :: report_entry where
  "entry_A = \<lparr>entry_upside_prob = 1, entry_vol_amp_prob = 0,
              entry_chart_path = ''static/chart/A.png''\<rparr>"

definition entry_B :: report_entry where
  "entry_B = \<lparr>entry_upside_prob = 1, entry_vol_amp_prob = 0,
              entry_chart_path = ''static/chart/B.png''\<rparr>"

lemmas world_defs =
  render_fail_world_def oracle_fail_world_def oracle_fail_hot_world_def publish_fail_world_def
  provider_fail_world_def no_data_world_def load_fail_world_def loaded_app_def entry_A_def
  entry_B_def

section \<open>Metric engine\<close>

lemma count_amplified_filter:
  "count_amplified lc hv cols k =
     k + length (filter (\<lambda>col. gt_nan (predicted_vol lc col) hv) cols)"
  by (induction cols arbitrary: k) simp_all

lemma mean_bool_count:
  "mean_bool (map P xs) = real (length (filter P xs)) / real (length xs)"
  by (simp add: mean_bool_def filter_map comp_def)

lemma last_row_wf: "wf_ensemble h f \<Longrightarrow> last_row f = Inr (map last f)"
  by (cases f) (simp_all add: wf_ensemble_def last_row_def n_rows_def)

lemma calculate_metrics_wf:
  assumes "hist_df \<noteq> []" and "wf_ensemble h close_preds" and "v_close_preds \<noteq> []"
  shows "calculate_metrics hist_df close_preds v_close_preds w =
     Inr (real (length (filter (\<lambda>p. close (last hist_df) < last p) close_preds))
            / real (length close_preds),
          real (length (filter (\<lambda>col. gt_nan (predicted_vol (close (last hist_df)) col)
                                         (historical_vol hist_df w)) v_close_preds))
            / real (length v_close_preds))"
proof -
  have lc: "iloc_last (map close hist_df) = Inr (close (last hist_df))"
    using assms(1) by (simp add: iloc_last_def last_map)
  have up: "mean_bool (map (\<lambda>p. close (last hist_df) < p) (map last close_preds)) =
      real (length (filter (\<lambda>p. close (last hist_df) < last p) close_preds))
        / real (length close_preds)"
    by (simp add: mean_bool_count filter_map comp_def)
  show ?thesis
    unfolding calculate_metrics_def lc last_row_wf [OF assms(2)]
    using assms(3) up by (simp add: Let_def count_amplified_filter)
qed

text \<open>
  C5. On a non-empty history and non-empty ensembles, \<open>calculate_metrics\<close> returns, and
  its upside probability is the number of main-close paths whose final value is strictly
  above the last historical close, divided by the number of paths. So it is 1 when every
  path ends above the last close, 0 when none does, and 0.6 when 18 of 30 paths end above
  a last close of 100.
\<close>

theorem upside_prob_fraction:
  assumes hist: "hist_df \<noteq> []"
    and main: "wf_ensemble h close_preds"
    and vola: "wf_ensemble h v_close_preds"
  shows "\<exists>up va. calculate_metrics hist_df close_preds v_close_preds w = Inr (up, va)
      \<and> up = real (length (filter (\<lambda>p. close (last hist_df) < last p) close_preds))
               / real (length close_preds)
      \<and> ((\<forall>p \<in> set close_preds. close (last hist_df) < last p) \<longrightarrow> up = 1)
      \<and> ((\<forall>p \<in> set close_preds. \<not> close (last hist_df) < last p) \<longrightarrow> up = 0)
      \<and> (close (last hist_df) = 100 \<and> length close_preds = 30
           \<and> length (filter (\<lambda>p. close (last hist_df) < last p) close_preds) = 18
          \<longrightarrow> up = 6 / 10)"
proof -
  let ?lc = "close (last hist_df)"
  let ?up = "real (length (filter (\<lambda>p. ?lc < last p) close_preds)) / real (length close_preds)"
  have ne: "close_preds \<noteq> []" and vne: "v_close_preds \<noteq> []"
    using main vola by (simp_all add: wf_ensemble_def)
  have run: "\<exists>va. calculate_metrics hist_df close_preds v_close_preds w = Inr (?up, va)"
    using calculate_metrics_wf [OF hist main vne] by simp
  have all1: "(\<forall>p \<in> set close_preds. ?lc < last p) \<longrightarrow> ?up = 1"
    using ne by auto
  have all0: "(\<forall>p \<in> set close_preds. \<not> ?lc < last p) \<longrightarrow> ?up = 0"
    by auto
  have sc: "?lc = 100 \<and> length close_preds = 30
           \<and> length (filter (\<lambda>p. ?lc < last p) close_preds) = 18 \<longrightarrow> ?up = 6 / 10"
  proof (intro impI, elim conjE)
    assume "length close_preds = 30"
      and "length (filter (\<lambda>p. ?lc < last p) close_preds) = 18"
    then show "?up = 6 / 10" by simp
  qed
  show ?thesis using run all1 all0 sc by blast
qed

theorem upside_prob_fraction_witness:
  "\<exists>va. calculate_metrics [flat_bar 0 100]
          (replicate 18 [100, 101] @ replicate 12 [100, 99]) [[101, 102]] 1
       = Inr (6 / 10, va)"
proof -
  have h1: "[flat_bar 0 100] \<noteq> []" by simp
  have h2: "wf_ensemble 2 (replicate 18 [100, 101] @ replicate 12 [100, 99])"
    by (simp add: wf_ensemble_def list_all_iff)
  have h3: "wf_ensemble 2 [[101, 102]]" by (simp add: wf_ensemble_def)
  show ?thesis using upside_prob_fraction [OF h1 h2 h3, of 1]
    by (auto simp: flat_bar_def)
qed

section \<open>Future time axis\<close>

lemma lower_char_eq_iff:
  assumes "(of_char t :: nat) < 65 \<or> (90 < (of_char t :: nat) \<and> (of_char t :: nat) < 192)"
  shows "lower_char ch = t \<longleftrightarrow>
           ch = t \<or> (65 \<le> (of_char ch :: nat) \<and> (of_char ch :: nat) \<le> 90
                     \<and> (of_char ch :: nat) + 32 = of_char t)"
proof -
  let ?n = "of_char ch :: nat"
  consider (ascii) "65 \<le> ?n \<and> ?n \<le> 90"
    | (latin) "192 \<le> ?n \<and> ?n \<le> 222 \<and> ?n \<noteq> 215"
    | (other) "\<not> (65 \<le> ?n \<and> ?n \<le> 90) \<and> \<not> (192 \<le> ?n \<and> ?n \<le> 222 \<and> ?n \<noteq> 215)"
    by blast
  then show ?thesis
  proof cases
    case ascii
    have "char_of (?n + 32) = t \<longleftrightarrow> ?n + 32 = of_char t"
      using ascii by (auto simp: char_of_eq_iff take_bit_eq_mod)
    moreover have "ch \<noteq> t" using ascii assms by auto
    ultimately show ?thesis using ascii by (simp add: lower_char_def Let_def)
  next
    case latin
    have "char_of (?n + 32) = t \<longleftrightarrow> ?n + 32 = of_char t"
      using latin by (auto simp: char_of_eq_iff take_bit_eq_mod)
    moreover have "?n + 32 \<noteq> of_char t" using latin assms by auto
    moreover have "ch \<noteq> t" using latin assms by auto
    ultimately show ?thesis using latin by (simp add: lower_char_def Let_def)
  next
    case other
    then show ?thesis by (auto simp: lower_char_def Let_def)
  qed
qed

lemma lower_char_d: "lower_char ch = CHR ''d'' \<longleftrightarrow> ch = CHR ''d'' \<or> ch = CHR ''D''"
proof -
  have "(of_char ch :: nat) + 32 = of_char CHR ''d'' \<longleftrightarrow> ch = CHR ''D''"
  proof -
    have "(of_char ch :: nat) + 32 = of_char CHR ''d'' \<longleftrightarrow> (of_char ch :: nat) = of_char CHR ''D''"
      by simp
    then show ?thesis by (simp only: of_char_eq_iff)
  qed
  then show ?thesis
    by (subst lower_char_eq_iff) auto
qed

lemma lower_char_h: "lower_char ch = CHR ''h'' \<longleftrightarrow> ch = CHR ''h'' \<or> ch = CHR ''H''"
proof -
  have "(of_char ch :: nat) + 32 = of_char CHR ''h'' \<longleftrightarrow> ch = CHR ''H''"
  proof -
    have "(of_char ch :: nat) + 32 = of_char CHR ''h'' \<longleftrightarrow> (of_char ch :: nat) = of_char CHR ''H''"
      by simp
    then show ?thesis by (simp only: of_char_eq_iff)
  qed
  then show ?thesis
    by (subst lower_char_eq_iff) auto
qed

lemma classify_interval_tokens:
  "classify_interval label =
     (if CHR ''d'' \<in> set label \<or> CHR ''D'' \<in> set label then Daily
      else if CHR ''h'' \<in> set label \<or> CHR ''H'' \<in> set label then Hourly
      else Minutely)"
proof -
  have d: "CHR ''d'' \<in> set (lower label) \<longleftrightarrow> CHR ''d'' \<in> set label \<or> CHR ''D'' \<in> set label"
  proof -
    have "CHR ''d'' = lower_char x \<longleftrightarrow> x = CHR ''d'' \<or> x = CHR ''D''" for x
      by (subst eq_commute) (rule lower_char_d)
    then show ?thesis unfolding lower_def set_map image_iff by auto
  qed
  have h: "CHR ''h'' \<in> set (lower label) \<longleftrightarrow> CHR ''h'' \<in> set label \<or> CHR ''H'' \<in> set label"
  proof -
    have "CHR ''h'' = lower_char x \<longleftrightarrow> x = CHR ''h'' \<or> x = CHR ''H''" for x
      by (subst eq_commute) (rule lower_char_h)
    then show ?thesis unfolding lower_def set_map image_iff by auto
  qed
  show ?thesis unfolding classify_interval_def d h by simp
qed

lemma timedelta_tokens:
  "timedelta (classify_interval label) =
     (if CHR ''d'' \<in> set label \<or> CHR ''D'' \<in> set label then 86400000000000
      else if CHR ''h'' \<in> set label \<or> CHR ''H'' \<in> set label then 3600000000000
      else 60000000000)"
  unfolding classify_interval_tokens by (simp add: timedelta_def)

lemma timedelta_pos: "0 < timedelta f"
  by (cases f) (simp_all add: timedelta_def)

lemma fold_max_Max: "fold max xs (x::int) = Max (set (x # xs))"
  using Max.set_eq_fold [of x xs] by simp

lemma series_max_sorted:
  assumes "ts \<noteq> []" and "sorted ts"
  shows "series_max ts = last ts"
proof -
  obtain x xs where ts: "ts = x # xs" using assms(1) by (cases ts) auto
  have "series_max ts = Max (set ts)"
    unfolding series_max_def ts by (simp add: fold_max_Max)
  also have "\<dots> = last ts"
  proof (rule Max_eqI)
    show "finite (set ts)" by simp
    show "last ts \<in> set ts" using assms(1) by simp
    fix y assume "y \<in> set ts"
    then obtain i where i: "i < length ts" "ts ! i = y" by (auto simp: in_set_conv_nth)
    have "ts ! i \<le> ts ! (length ts - 1)"
      using assms(2) i(1) by (intro sorted_nth_mono) auto
    then show "y \<le> last ts" using i assms(1) by (simp add: last_conv_nth)
  qed
  finally show ?thesis .
qed

lemma date_range_sorted: "0 < td \<Longrightarrow> sorted_wrt (<) (date_range start n td)"
  by (auto simp: date_range_def sorted_wrt_map sorted_wrt_iff_nth_less)

lemma date_range_2: "date_range start 2 td = [start, start + td]"
  by (simp add: date_range_def numeral_2_eq_2)

lemma future_axis_sorted_history:
  assumes "2 \<le> length d" and "sorted_wrt (<) (map timestamps d)" and "1 \<le> horizon"
  shows "future_axis d horizon label =
     (if timestamp_max < timestamps (last d) + int horizon * timedelta (classify_interval label)
      then Inl OutOfBoundsDatetime
      else Inr (date_range (timestamps (last d) + timedelta (classify_interval label)) horizon
                  (timedelta (classify_interval label))))"
proof -
  let ?td = "timedelta (classify_interval label)"
  let ?ts = "timestamps (last d)"
  have ne: "d \<noteq> []" using assms(1) by auto
  have "sorted (map timestamps d)"
    using assms(2) by (rule sorted_wrt_mono_rel [rotated]) simp
  then have last_ts: "series_max (map timestamps d) = ?ts"
    using series_max_sorted [of "map timestamps d"] ne by (simp add: last_map)
  have pos: "0 < ?td" by (rule timedelta_pos)
  have end_eq: "?ts + ?td + (int horizon - 1) * ?td = ?ts + int horizon * ?td"
    by (simp add: algebra_simps)
  have "1 * ?td \<le> int horizon * ?td"
    using assms(3) pos by (intro mult_right_mono) auto
  then have start_le: "?ts + ?td \<le> ?ts + int horizon * ?td" by simp
  show ?thesis
    using ne start_le
    by (simp add: future_axis_def Let_def last_ts end_eq)
qed

text \<open>
  C8 as stated fails: the axis is made of 64-bit nanosecond timestamps. From a history in
  1970, a horizon of 106752 daily steps passes the largest timestamp and the generation
  raises instead of returning an axis.
\<close>

theorem future_axis_out_of_bounds_counterexample:
  "future_axis [flat_bar 0 1, flat_bar 1 1] 106752 ''1d'' = Inl OutOfBoundsDatetime"
  by (simp add: future_axis_def flat_bar_def classify_interval_def lower_def lower_char_def
      timedelta_def series_max_def timestamp_max_def Let_def)

text \<open>
  C8, amended. Take a history of at least two bars with strictly increasing timestamps, a
  horizon of at least one and any interval label; the step is 86400000000000 ns (a day) when
  the label contains a \<open>d\<close> in either case, else 3600000000000 ns (an hour) when it contains
  an \<open>h\<close> in either case, else 60000000000 ns (a minute). When the last historical timestamp
  plus \<open>horizon\<close> steps is a representable timestamp, \<open>future_axis\<close> returns an axis of
  exactly \<open>horizon\<close> points; point \<open>i\<close> is the last historical timestamp plus \<open>i + 1\<close>
  steps, so the axis starts one step after the history, is strictly increasing and has that
  constant step, and any other history ending at the same timestamp, whatever its gaps,
  gives the same axis. Otherwise the generation raises.
\<close>

theorem future_axis_contiguous:
  fixes df :: frame and horizon :: nat and label :: string
  defines "step \<equiv>
     (if CHR ''d'' \<in> set label \<or> CHR ''D'' \<in> set label then 86400000000000
      else if CHR ''h'' \<in> set label \<or> CHR ''H'' \<in> set label then 3600000000000
      else 60000000000 :: int)"
  assumes bars: "2 \<le> length df"
    and horizon: "1 \<le> horizon"
    and incr: "sorted_wrt (<) (map timestamps df)"
  shows "(timestamps (last df) + int horizon * step \<le> timestamp_max \<longrightarrow>
          (\<exists>axis. future_axis df horizon label = Inr axis
             \<and> length axis = horizon
             \<and> (\<forall>i < horizon. axis ! i = timestamps (last df) + (int i + 1) * step)
             \<and> hd axis = timestamps (last df) + step
             \<and> sorted_wrt (<) axis
             \<and> (\<forall>i. Suc i < horizon \<longrightarrow> axis ! Suc i - axis ! i = step)
             \<and> (\<forall>df'. 2 \<le> length df' \<and> sorted_wrt (<) (map timestamps df')
                      \<and> timestamps (last df') = timestamps (last df)
                   \<longrightarrow> future_axis df' horizon label = Inr axis)))
       \<and> (timestamp_max < timestamps (last df) + int horizon * step \<longrightarrow>
            future_axis df horizon label = Inl OutOfBoundsDatetime)"
proof (intro conjI impI)
  have td: "timedelta (classify_interval label) = step"
    unfolding step_def by (rule timedelta_tokens)
  have pos: "0 < step" using timedelta_pos [of "classify_interval label"] td by simp
  let ?axis = "date_range (timestamps (last df) + step) horizon step"
  have run: "future_axis d horizon label =
     (if timestamp_max < timestamps (last d) + int horizon * step then Inl OutOfBoundsDatetime
      else Inr (date_range (timestamps (last d) + step) horizon step))"
    if "2 \<le> length d" "sorted_wrt (<) (map timestamps d)" for d :: frame
    using future_axis_sorted_history [OF that horizon, of label] by (simp only: td)
  {
    assume over: "timestamp_max < timestamps (last df) + int horizon * step"
    show "future_axis df horizon label = Inl OutOfBoundsDatetime"
      using run [OF bars incr] over by simp
  }
  assume fits: "timestamps (last df) + int horizon * step \<le> timestamp_max"
  have here: "future_axis df horizon label = Inr ?axis"
    using run [OF bars incr] fits by simp
  have len: "length ?axis = horizon" by (simp add: date_range_def)
  have nth: "\<forall>i < horizon. ?axis ! i = timestamps (last df) + (int i + 1) * step"
    by (simp add: date_range_def algebra_simps)
  have hd: "hd ?axis = timestamps (last df) + step"
    using horizon by (simp add: date_range_def hd_map upt_conv_Cons)
  have sorted: "sorted_wrt (<) ?axis" using pos by (rule date_range_sorted)
  have const: "\<forall>i. Suc i < horizon \<longrightarrow> ?axis ! Suc i - ?axis ! i = step"
    by (simp add: date_range_def algebra_simps)
  have other: "\<forall>df'. 2 \<le> length df' \<and> sorted_wrt (<) (map timestamps df')
               \<and> timestamps (last df') = timestamps (last df)
            \<longrightarrow> future_axis df' horizon label = Inr ?axis"
    using run fits by auto
  show "\<exists>axis. future_axis df horizon label = Inr axis
             \<and> length axis = horizon
             \<and> (\<forall>i < horizon. axis ! i = timestamps (last df) + (int i + 1) * step)
             \<and> hd axis = timestamps (last df) + step
             \<and> sorted_wrt (<) axis
             \<and> (\<forall>i. Suc i < horizon \<longrightarrow> axis ! Suc i - axis ! i = step)
             \<and> (\<forall>df'. 2 \<le> length df' \<and> sorted_wrt (<) (map timestamps df')
                      \<and> timestamps (last df') = timestamps (last df)
                   \<longrightarrow> future_axis df' horizon label = Inr axis)"
    by (rule exI [of _ ?axis]) (intro conjI here len nth hd sorted const other)
qed

theorem future_axis_contiguous_witness:
  "future_axis [flat_bar 0 1, flat_bar 7 1] 3 ''1h'' =
     Inr [7 + 3600000000000, 7 + 2 * 3600000000000, 7 + 3 * 3600000000000]
   \<and> future_axis [flat_bar 0 1, flat_bar 7 1] 2 ''1D'' =
     Inr [7 + 86400000000000, 7 + 2 * 86400000000000]
   \<and> future_axis [flat_bar 0 1, flat_bar 7 1] 2 ''5m'' =
     Inr [7 + 60000000000, 7 + 2 * 60000000000]
   \<and> future_axis [flat_bar 0 1, flat_bar 7 1] 106752 ''1d'' = Inl OutOfBoundsDatetime"
proof -
  let ?df = "[flat_bar 0 1, flat_bar 7 1]"
  have h1: "2 \<le> length ?df" by simp
  have h3: "sorted_wrt (<) (map timestamps ?df)" by (simp add: flat_bar_def)
  have fits: "timestamps (last ?df) + int 3 * 3600000000000 \<le> timestamp_max"
    by (simp add: flat_bar_def timestamp_max_def)
  have over: "timestamp_max < timestamps (last ?df) + int 106752 * 86400000000000"
    by (simp add: flat_bar_def timestamp_max_def)
  obtain axis where ax: "future_axis ?df 3 ''1h'' = Inr axis"
      "length axis = 3"
      "\<forall>i < 3. axis ! i = timestamps (last ?df) + (int i + 1) * 3600000000000"
    using future_axis_contiguous [where df = ?df and horizon = 3 and label = "''1h''"]
      h1 h3 fits by auto
  have "axis = [axis ! 0, axis ! 1, axis ! 2]"
    using ax(2)
    by (auto simp: list_eq_iff_nth_eq nth_Cons' numeral_3_eq_3 numeral_2_eq_2 less_Suc_eq)
  also have "\<dots> = [7 + 3600000000000, 7 + 2 * 3600000000000, 7 + 3 * 3600000000000]"
    using ax(3) by (simp add: flat_bar_def)
  finally have a: "future_axis ?df 3 ''1h'' =
     Inr [7 + 3600000000000, 7 + 2 * 3600000000000, 7 + 3 * 3600000000000]"
    using ax(1) by simp
  have b: "future_axis ?df 2 ''1D'' = Inr [7 + 86400000000000, 7 + 2 * 86400000000000]"
    by (simp add: future_axis_def timedelta_tokens series_max_def timestamp_max_def
        flat_bar_def date_range_2 Let_def)
  have c: "future_axis ?df 2 ''5m'' = Inr [7 + 60000000000, 7 + 2 * 60000000000]"
    by (simp add: future_axis_def timedelta_tokens series_max_def timestamp_max_def
        flat_bar_def date_range_2 Let_def)
  have d: "future_axis ?df 106752 ''1d'' = Inl OutOfBoundsDatetime"
    using future_axis_contiguous [where df = ?df and horizon = 106752 and label = "''1d''"]
      h1 h3 over by auto
  show ?thesis using a b c d by (intro conjI)
qed

section \<open>Historical volatility and volatility amplification\<close>

lemma sample_std_nonneg: "sample_std vs = Some v \<Longrightarrow> 0 \<le> v"
proof -
  have "0 \<le> sum_list (map (\<lambda>x. (x - m)\<^sup>2) vs) / real (length vs - 1)" for m :: real
    by (intro divide_nonneg_nonneg sum_list_nonneg) auto
  then show "sample_std vs = Some v \<Longrightarrow> 0 \<le> v"
    unfolding sample_std_def Let_def by (auto split: if_splits)
qed

lemma gt_nan_zero: "std s = pv \<Longrightarrow> gt_nan pv (Some 0) \<longleftrightarrow> pv \<noteq> None \<and> pv \<noteq> Some 0"
  using sample_std_nonneg [of "dropna s"]
  by (cases pv) (auto simp: gt_nan_def std_def)

lemma gt_nan_None: "gt_nan pv None = False"
  by (cases pv) (simp_all add: gt_nan_def)

lemma dropna_Some: "dropna (map Some xs) = xs"
  by (induction xs) (simp_all add: dropna_def)

lemma dropna_None_Cons: "dropna (None # s) = dropna s"
  by (simp add: dropna_def)

lemma log_returns_spec:
  "xs \<noteq> [] \<Longrightarrow> log_returns xs = None # map Some (spec_log_returns xs)"
  by (cases xs) (simp_all add: log_returns_def spec_log_returns_def split_def)

lemma length_spec_log_returns: "length (spec_log_returns xs) = length xs - 1"
  by (simp add: spec_log_returns_def)

lemma spec_log_returns_drop:
  "spec_log_returns (drop k xs) = drop k (spec_log_returns xs)"
  by (simp add: spec_log_returns_def drop_map drop_zip tl_drop)

lemma spec_log_returns_map_drop:
  "spec_log_returns (map f (drop k xs)) = drop k (spec_log_returns (map f xs))"
  using spec_log_returns_drop [of k "map f xs"] by (simp add: drop_map)

lemma historical_vol_full_window:
  assumes "w + 1 \<le> length hist_df" and "0 < w"
  shows "historical_vol hist_df w = spec_historical_vol (map close hist_df) w"
proof -
  let ?r = "spec_log_returns (map close hist_df)"
  have ne: "map close hist_df \<noteq> []" using assms(1) by auto
  have len: "length ?r = length hist_df - 1" by (simp add: length_spec_log_returns)
  have enough: "\<not> length ?r < w" using assms len by linarith
  have "iloc_from_end w (None # map Some ?r) = map Some (drop (length ?r - w) ?r)"
    using assms len by (simp add: iloc_from_end_def drop_Cons' drop_map)
  then have "historical_vol hist_df w = sample_std (drop (length ?r - w) ?r)"
    by (simp add: historical_vol_def log_returns_spec [OF ne] std_def dropna_Some)
  then show ?thesis
    using enough by (simp add: spec_historical_vol_def Let_def)
qed

lemma historical_vol_engine_window:
  assumes "w \<le> length df_for_model" and "0 < w"
  shows "historical_vol (hist_df_for_metrics df_for_model w) w =
           spec_historical_vol (map close df_for_model) (w - 1)"
proof -
  let ?k = "length df_for_model - w"
  let ?xs = "map close df_for_model"
  let ?r = "spec_log_returns ?xs"
  have ne: "map close (drop ?k df_for_model) \<noteq> []" using assms by simp
  have len: "length ?r = length df_for_model - 1" by (simp add: length_spec_log_returns)
  have lr: "log_returns (map close (hist_df_for_metrics df_for_model w)) =
      None # map Some (drop ?k ?r)"
    using log_returns_spec [OF ne]
    by (simp add: hist_df_for_metrics_def tail_def spec_log_returns_map_drop)
  have l1: "length (None # map Some (drop ?k ?r)) = w" using assms len by simp
  have "iloc_from_end w (None # map Some (drop ?k ?r)) = None # map Some (drop ?k ?r)"
    using assms(2) l1 by (simp add: iloc_from_end_def)
  then have code: "historical_vol (hist_df_for_metrics df_for_model w) w =
      sample_std (drop ?k ?r)"
    by (simp add: historical_vol_def lr std_def dropna_None_Cons dropna_Some)
  have "length ?r - (w - 1) = ?k" and "\<not> length ?r < w - 1" using assms len by linarith+
  then show ?thesis
    using code by (simp add: spec_historical_vol_def Let_def)
qed

text \<open>
  C3. The engine hands \<open>calculate_metrics\<close> the last \<open>vol_window\<close> bars of the history
  (\<open>hist_df_for_metrics\<close>), which hold only \<open>vol_window - 1\<close> log returns, so the
  historical volatility is the sample standard deviation of the most recent
  \<open>vol_window - 1\<close> log returns (\<open>historical_vol_engine_window\<close>), although
  \<open>calculate_metrics\<close> on a history of \<open>vol_window + 1\<close> bars would use \<open>vol_window\<close> of
  them (\<open>historical_vol_full_window\<close>). On the history with closes 1, 2, 2, 2 before the
  dropped bar and \<open>vol_window = 3\<close> the engine's volatility is 0, the volatility of the
  last three log returns is not, and a path whose predicted volatility equals the latter is
  counted as amplified.
\<close>

theorem historical_vol_window_off_by_one:
  "historical_vol (hist_df_for_metrics (butlast step_frame) 3) 3 = Some 0
   \<and> spec_historical_vol (map close (butlast step_frame)) 3 \<noteq> Some 0
   \<and> snd (run_for_symbol step_world (Some step_frame) ''A'' 3 1 2 3 ''1h'') =
       Inr (Some \<lparr>upside_prob = 1, vol_amp_prob = 1,
                  chart_path = Some ''docs/static/chart/A.png''\<rparr>)
   \<and> \<not> gt_nan (predicted_vol 2 [2, 2, 4])
             (spec_historical_vol (map close (butlast step_frame)) 3)"
proof -
  have a: "historical_vol (hist_df_for_metrics (butlast step_frame) 3) 3 = Some 0"
    by (simp add: step_frame_def pipeline_defs flat_bar_def)
  have b: "spec_historical_vol (map close (butlast step_frame)) 3 \<noteq> Some 0"
    by (simp add: step_frame_def spec_historical_vol_def spec_log_returns_def sample_std_def
        flat_bar_def Let_def add_nonneg_eq_0_iff)
  have c: "snd (run_for_symbol step_world (Some step_frame) ''A'' 3 1 2 3 ''1h'') =
       Inr (Some \<lparr>upside_prob = 1, vol_amp_prob = 1,
                  chart_path = Some ''docs/static/chart/A.png''\<rparr>)"
    by (simp add: step_world_def step_frame_def pipeline_defs flat_bar_def Let_def
        add_pos_pos)
  have d: "\<not> gt_nan (predicted_vol 2 [2, 2, 4])
             (spec_historical_vol (map close (butlast step_frame)) 3)"
    by (simp add: step_frame_def spec_historical_vol_def spec_log_returns_def pipeline_defs
        flat_bar_def Let_def)
  show ?thesis using a b c d by blast
qed


text \<open>
  C4 as stated fails when the historical volatility is undefined: on a one-bar trailing
  history every comparison against NaN is false, so a path with a defined, nonzero
  predicted volatility is not counted and the probability is 0.
\<close>

theorem vol_amp_undefined_counterexample:
  "historical_vol [flat_bar 0 1] 1 = None
   \<and> predicted_vol 1 [2, 2] \<noteq> None \<and> predicted_vol 1 [2, 2] \<noteq> Some 0
   \<and> calculate_metrics [flat_bar 0 1] [[2, 2]] [[2, 2]] 1 = Inr (1, 0)"
  by (simp add: pipeline_defs Let_def flat_bar_def add_nonneg_eq_0_iff)

text \<open>
  C4, amended. There is no separate branch: the count uses the plain comparison
  \<open>predicted_vol > historical_vol\<close>. When the historical volatility is exactly zero, the
  paths counted as amplified are those whose predicted volatility is defined and nonzero,
  so the probability is 1 when every path's predicted volatility is positive. When the
  historical volatility is undefined, no path is counted and the probability is 0.
\<close>

theorem vol_amp_zero_or_undefined:
  assumes hist: "hist_df \<noteq> []"
    and main: "wf_ensemble h close_preds"
    and vola: "v_close_preds \<noteq> []"
  shows "\<exists>up va. calculate_metrics hist_df close_preds v_close_preds w = Inr (up, va)
      \<and> (historical_vol hist_df w = Some 0 \<longrightarrow>
           va = real (length (filter (\<lambda>col. predicted_vol (close (last hist_df)) col \<noteq> None
                                          \<and> predicted_vol (close (last hist_df)) col \<noteq> Some 0)
                               v_close_preds))
                / real (length v_close_preds))
      \<and> (historical_vol hist_df w = Some 0
           \<and> (\<forall>col \<in> set v_close_preds.
                  \<exists>x. 0 < x \<and> predicted_vol (close (last hist_df)) col = Some x)
          \<longrightarrow> va = 1)
      \<and> (historical_vol hist_df w = None \<longrightarrow> va = 0)"
proof -
  let ?lc = "close (last hist_df)"
  let ?hv = "historical_vol hist_df w"
  let ?va = "real (length (filter (\<lambda>col. gt_nan (predicted_vol ?lc col) ?hv) v_close_preds))
               / real (length v_close_preds)"
  have run: "\<exists>up. calculate_metrics hist_df close_preds v_close_preds w = Inr (up, ?va)"
    using calculate_metrics_wf [OF hist main vola] by simp
  have zero: "?hv = Some 0 \<longrightarrow>
      ?va = real (length (filter (\<lambda>col. predicted_vol ?lc col \<noteq> None
                                      \<and> predicted_vol ?lc col \<noteq> Some 0) v_close_preds))
              / real (length v_close_preds)"
  proof
    assume z: "?hv = Some 0"
    have "gt_nan (predicted_vol ?lc col) ?hv \<longleftrightarrow>
        predicted_vol ?lc col \<noteq> None \<and> predicted_vol ?lc col \<noteq> Some 0" for col
      unfolding z by (rule gt_nan_zero) (simp add: predicted_vol_def)
    then show "?va = real (length (filter (\<lambda>col. predicted_vol ?lc col \<noteq> None
                                      \<and> predicted_vol ?lc col \<noteq> Some 0) v_close_preds))
              / real (length v_close_preds)"
      by simp
  qed
  have one: "?hv = Some 0
       \<and> (\<forall>col \<in> set v_close_preds. \<exists>x. 0 < x \<and> predicted_vol ?lc col = Some x)
      \<longrightarrow> ?va = 1"
  proof
    assume a: "?hv = Some 0
       \<and> (\<forall>col \<in> set v_close_preds. \<exists>x. 0 < x \<and> predicted_vol ?lc col = Some x)"
    then have "\<forall>col \<in> set v_close_preds. gt_nan (predicted_vol ?lc col) ?hv"
      by (auto simp: gt_nan_def)
    then have "filter (\<lambda>col. gt_nan (predicted_vol ?lc col) ?hv) v_close_preds = v_close_preds"
      by (simp add: filter_id_conv)
    then show "?va = 1" using vola by simp
  qed
  have undef: "?hv = None \<longrightarrow> ?va = 0"
    by (simp add: gt_nan_None)
  from run obtain up
    where r: "calculate_metrics hist_df close_preds v_close_preds w = Inr (up, ?va)"
    by (elim exE)
  show ?thesis
    by (rule exI [of _ up], rule exI [of _ ?va]) (intro conjI r zero one undef)
qed

theorem vol_amp_zero_or_undefined_witness:
  "(\<exists>up. calculate_metrics [flat_bar 0 1, flat_bar 1 1, flat_bar 2 1] [[2, 2]] [[2, 2]] 2
            = Inr (up, 1))
   \<and> (\<exists>up. calculate_metrics [flat_bar 0 1] [[2, 2]] [[2, 2]] 1 = Inr (up, 0))"
proof -
  let ?h3 = "[flat_bar 0 1, flat_bar 1 1, flat_bar 2 1]"
  have ne3: "?h3 \<noteq> []" and ne1: "[flat_bar 0 1] \<noteq> []" by simp_all
  have wf: "wf_ensemble 2 [[2, 2]]" by (simp add: wf_ensemble_def)
  have v: "[[2, 2 :: real]] \<noteq> []" by simp
  have hv0: "historical_vol ?h3 2 = Some 0"
    by (simp add: pipeline_defs flat_bar_def)
  have pv: "\<forall>col \<in> set [[2, 2 :: real]].
      \<exists>x. 0 < x \<and> predicted_vol (close (last ?h3)) col = Some x"
    by (simp add: pipeline_defs flat_bar_def Let_def add_pos_pos)
  have hvN: "historical_vol [flat_bar 0 1] 1 = None"
    by (simp add: pipeline_defs flat_bar_def)
  have a: "\<exists>up. calculate_metrics ?h3 [[2, 2]] [[2, 2]] 2 = Inr (up, 1)"
  proof -
    obtain up va where r: "calculate_metrics ?h3 [[2, 2]] [[2, 2]] 2 = Inr (up, va)"
      and one: "historical_vol ?h3 2 = Some 0
           \<and> (\<forall>col \<in> set [[2, 2 :: real]].
                  \<exists>x. 0 < x \<and> predicted_vol (close (last ?h3)) col = Some x)
          \<longrightarrow> va = 1"
      using vol_amp_zero_or_undefined [OF ne3 wf v, of 2] by (elim exE conjE)
    have "va = 1" using one hv0 pv by (elim impE) (intro conjI)
    then show ?thesis using r by (intro exI [of _ up]) simp
  qed
  have b: "\<exists>up. calculate_metrics [flat_bar 0 1] [[2, 2]] [[2, 2]] 1 = Inr (up, 0)"
  proof -
    obtain up va where r: "calculate_metrics [flat_bar 0 1] [[2, 2]] [[2, 2]] 1 = Inr (up, va)"
      and undef: "historical_vol [flat_bar 0 1] 1 = None \<longrightarrow> va = 0"
      using vol_amp_zero_or_undefined [OF ne1 wf v, of 1] by (elim exE conjE)
    have "va = 0" using undef hvN by (elim impE)
    then show ?thesis using r by (intro exI [of _ up]) simp
  qed
  show ?thesis using a b by blast
qed

section \<open>Cycle orchestration\<close>

lemma is_instrument_event_simps [simp]:
  "is_instrument_event (Fetch a b)" "is_instrument_event (Predict t)"
  "is_instrument_event (Render s)" "\<not> is_instrument_event LoadModel"
  "\<not> is_instrument_event (Publish r)"
  by (simp_all add: is_instrument_event_def)

lemma make_prediction_events:
  "make_prediction p df ph np itv = (evs, r) \<Longrightarrow> list_all is_instrument_event evs"
  by (auto simp: make_prediction_def split: sum.splits prod.splits)

lemma run_for_symbol_events:
  "run_for_symbol w df_full smb ph np hp vw itv = (evs, r) \<Longrightarrow> list_all is_instrument_event evs"
  unfolding run_for_symbol_def Let_def
  by (auto dest!: make_prediction_events
      split: option.splits if_splits sum.splits prod.splits)

lemma run_symbols_trace:
  "\<exists>evs. fst (run_symbols w c src itv smbs tr m) = tr @ evs \<and> list_all is_instrument_event evs
      \<and> run_symbols w c src itv smbs tr0 m = (tr0 @ evs, snd (run_symbols w c src itv smbs tr m))"
proof (induction smbs arbitrary: tr tr0 m)
  case Nil
  show ?case by simp
next
  case (Cons smb rest)
  let ?df = "fetch w src smb itv (hist_points c + vol_window c)"
  show ?case
  proof (cases "?df = None \<or> ?df = Some []")
    case True
    obtain evs where e: "fst (run_symbols w c src itv rest (tr @ [Fetch src smb]) m) = (tr @ [Fetch src smb]) @ evs"
      "list_all is_instrument_event evs"
      "run_symbols w c src itv rest (tr0 @ [Fetch src smb]) m = ((tr0 @ [Fetch src smb]) @ evs, snd (run_symbols w c src itv rest (tr @ [Fetch src smb]) m))"
      using Cons.IH [of "tr @ [Fetch src smb]" m "tr0 @ [Fetch src smb]"] by blast
    show ?thesis
      using True e by (intro exI [of _ "Fetch src smb # evs"]) (simp add: Let_def)
  next
    case False
    then obtain d where d: "?df = Some d" "d \<noteq> []" by (cases ?df) auto
    obtain evs r where rfs: "run_for_symbol w ?df smb (pred_horizon c) (n_predictions c)
                   (hist_points c) (vol_window c) itv = (evs, r)"
      by (cases "run_for_symbol w ?df smb (pred_horizon c) (n_predictions c)
                   (hist_points c) (vol_window c) itv") 
    have ev: "list_all is_instrument_event evs" using run_for_symbol_events [OF rfs] .
    have stop: ?thesis if "run_symbols w c src itv (smb # rest) tr m = (tr @ Fetch src smb # evs, Inl e)"
      "run_symbols w c src itv (smb # rest) tr0 m = (tr0 @ Fetch src smb # evs, Inl e)" for e
      using that ev by (intro exI [of _ "Fetch src smb # evs"]) simp
    have go: ?thesis if "\<And>t. run_symbols w c src itv (smb # rest) t m = run_symbols w c src itv rest (t @ Fetch src smb # evs) m'" for m'
    proof -
      obtain evs' where e: "fst (run_symbols w c src itv rest (tr @ Fetch src smb # evs) m') = (tr @ Fetch src smb # evs) @ evs'"
      "list_all is_instrument_event evs'"
      "run_symbols w c src itv rest (tr0 @ Fetch src smb # evs) m' = ((tr0 @ Fetch src smb # evs) @ evs', snd (run_symbols w c src itv rest (tr @ Fetch src smb # evs) m'))"
        using Cons.IH [of "tr @ Fetch src smb # evs" m' "tr0 @ Fetch src smb # evs"] by blast
      show ?thesis
        using e ev that by (intro exI [of _ "Fetch src smb # evs @ evs'"]) simp
    qed
    show ?thesis
    proof (cases r)
      case (Inl e)
      show ?thesis by (rule stop [of e]) (use d rfs Inl in \<open>simp_all add: Let_def\<close>)
    next
      case (Inr res)
      show ?thesis
      proof (cases res)
        case None
        show ?thesis by (rule go [of m]) (use d rfs Inr None in \<open>simp add: Let_def\<close>)
      next
        case (Some result)
        show ?thesis
        proof (cases "chart_path result")
          case None
          show ?thesis by (rule stop [of AttributeError]) (use d rfs Inr Some None in \<open>simp_all add: Let_def\<close>)
        next
          case (Some path)
          note p = Some
          show ?thesis
          proof (cases "relative_to path ''docs''")
            case (Inl e)
            show ?thesis by (rule stop [of e]) (use d rfs Inr \<open>res = Some result\<close> p Inl in \<open>simp_all add: Let_def\<close>)
          next
            case (Inr rel)
            show ?thesis
              by (rule go [of "AList.update smb \<lparr>entry_upside_prob = upside_prob result,
                             entry_vol_amp_prob = vol_amp_prob result,
                             entry_chart_path = rel\<rparr> m"])
                 (use d rfs \<open>r = Inr res\<close> \<open>res = Some result\<close> p Inr in \<open>simp add: Let_def\<close>)
          qed
        qed
      qed
    qed
  qed
qed

lemma run_symbols_events:
  assumes "run_symbols w c src itv smbs tr m = (tr', r)"
  shows "\<exists>evs. tr' = tr @ evs \<and> list_all is_instrument_event evs"
  using run_symbols_trace [of w c src itv smbs tr m tr] assms by auto


lemma run_sources_events:
  "run_sources w cfg c srcs tr m = (tr', r) \<Longrightarrow>
     \<exists>evs. tr' = tr @ evs \<and> list_all is_instrument_event evs"
proof (induction srcs arbitrary: tr m)
  case Nil
  then show ?case by simp
next
  case (Cons src rest)
  show ?case
  proof (cases "cfg src")
    case None
    then show ?thesis using Cons by simp
  next
    case (Some sc)
    obtain t1 r1 where rs: "run_symbols w c src (interval sc)
        (map strip (split_comma (symbols sc))) tr m = (t1, r1)"
      by (cases "run_symbols w c src (interval sc) (map strip (split_comma (symbols sc))) tr m")
    obtain e1 where e1: "t1 = tr @ e1" "list_all is_instrument_event e1"
      using run_symbols_events [OF rs] by blast
    show ?thesis
    proof (cases r1)
      case (Inl e)
      then show ?thesis using Cons.prems Some rs e1 by auto
    next
      case (Inr m1)
      then have "run_sources w cfg c rest t1 m1 = (tr', r)"
        using Cons.prems Some rs by simp
      then obtain e2 where "tr' = t1 @ e2" "list_all is_instrument_event e2"
        using Cons.IH by blast
      then show ?thesis using e1 by (intro exI [of _ "e1 @ e2"]) simp
    qed
  qed
qed

lemma instrument_events_filter:
  assumes "list_all is_instrument_event evs"
  shows "filter is_publish evs = []" and "LoadModel \<notin> set evs"
  using assms by (induction evs) (auto simp: is_instrument_event_def is_publish_def split: event.splits)

lemma run_inference_mode_trace:
  assumes "run_inference_mode w cfg c a = (a', tr, r)"
  shows "\<exists>evs. tr = (if \<not> model_loaded a \<and> \<not> mock a then [LoadModel] else []) @ evs
      \<and> list_all is_instrument_event evs
      \<and> a' = (if \<not> model_loaded a \<and> \<not> mock a \<and> load_ok w
               then a\<lparr>model_loaded := True, artifacts := True\<rparr> else a)"
proof -
  have src: "\<exists>evs. t = t0 @ evs \<and> list_all is_instrument_event evs"
    if "run_sources w cfg c available t0 [] = (t, r0)" for t t0 r0
    using run_sources_events [OF that] .
  show ?thesis
    using assms unfolding run_inference_mode_def ensure_model_loaded_def
    by (auto split: if_splits prod.splits dest!: src)
qed



text \<open>
  C7 as stated fails on a non-empty report when the publisher raises: the publisher has been
  called once with the whole report, but the exception is caught at the top of the cycle,
  which returns the failure signal.
\<close>

theorem publisher_failure_counterexample:
  "run_forecast publish_fail_world demo_config demo_common (init_app False) =
     (loaded_app,
      [LoadModel, Fetch ''binance'' ''A'', Predict (6 / 10), Predict (9 / 10), Render ''A'',
       Fetch ''binance'' ''B'', Predict (6 / 10), Predict (9 / 10), Render ''B'',
       Publish [(''A'', entry_A), (''B'', entry_B)]], False)"
  by (simp add: app_defs world_defs demo_defs pipeline_defs Let_def)

text \<open>
  C7, amended. Once the per-instrument loop (or the mock listing) has ended with a report: on
  an empty report the cycle returns the failure signal and its trace holds no publisher
  call; on a non-empty report the trace holds exactly one publisher call, made with that
  report after every other call, and the cycle returns success when that call returns and
  the failure signal when it raises.
\<close>

theorem publish_once_or_fail:
  assumes "(if mock a then (a, [], Inr (run_mock_mode w)) else run_inference_mode w cfg c a)
             = (a', tr, Inr metrics)"
  shows "(metrics = [] \<longrightarrow>
            run_forecast w cfg c a = (a', tr, False) \<and> filter is_publish tr = [])
       \<and> (metrics \<noteq> [] \<longrightarrow>
            fst (snd (run_forecast w cfg c a)) = tr @ [Publish metrics]
            \<and> filter is_publish (fst (snd (run_forecast w cfg c a))) = [Publish metrics]
            \<and> (\<forall>p. publish w metrics = Inr p \<longrightarrow>
                  run_forecast w cfg c a = (a', tr @ [Publish metrics], True))
            \<and> (\<forall>e. publish w metrics = Inl e \<longrightarrow>
                  run_forecast w cfg c a = (a', tr @ [Publish metrics], False)))"
proof -
  have nopub: "filter is_publish tr = []"
  proof (cases "mock a")
    case True
    then show ?thesis using assms by simp
  next
    case False
    then have "run_inference_mode w cfg c a = (a', tr, Inr metrics)" using assms by simp
    from run_inference_mode_trace [OF this] obtain evs
      where "tr = (if \<not> model_loaded a \<and> \<not> mock a then [LoadModel] else []) @ evs"
        and "list_all is_instrument_event evs" by blast
    then show ?thesis
      using instrument_events_filter(1) [of evs] by (simp add: is_publish_def)
  qed
  have empty: "metrics = [] \<longrightarrow> run_forecast w cfg c a = (a', tr, False)"
    using assms unfolding run_forecast_def by simp
  have tr': "metrics \<noteq> [] \<longrightarrow> fst (snd (run_forecast w cfg c a)) = tr @ [Publish metrics]"
    using assms unfolding run_forecast_def by (simp split: sum.splits)
  have ok: "metrics \<noteq> [] \<longrightarrow> (\<forall>p. publish w metrics = Inr p \<longrightarrow>
                  run_forecast w cfg c a = (a', tr @ [Publish metrics], True))"
    using assms unfolding run_forecast_def by simp
  have bad: "metrics \<noteq> [] \<longrightarrow> (\<forall>e. publish w metrics = Inl e \<longrightarrow>
                  run_forecast w cfg c a = (a', tr @ [Publish metrics], False))"
    using assms unfolding run_forecast_def by simp
  show ?thesis using nopub empty tr' ok bad by (simp add: is_publish_def)
qed

theorem publish_once_or_fail_witness:
  "run_forecast no_data_world demo_config demo_common (init_app False) =
     (loaded_app, [LoadModel, Fetch ''binance'' ''A'', Fetch ''binance'' ''B''], False)
   \<and> run_forecast demo_world demo_config demo_common (init_app False) =
     (loaded_app,
      [LoadModel, Fetch ''binance'' ''A'', Predict (6 / 10), Predict (9 / 10), Render ''A'',
       Fetch ''binance'' ''B'', Predict (6 / 10), Predict (9 / 10), Render ''B'',
       Publish [(''A'', entry_A), (''B'', entry_B)]], True)
   \<and> snd (snd (run_forecast publish_fail_world demo_config demo_common (init_app False)))
       = False"
proof -
  let ?tr0 = "[LoadModel, Fetch ''binance'' ''A'', Fetch ''binance'' ''B'']"
  let ?tr1 = "[LoadModel, Fetch ''binance'' ''A'', Predict (6 / 10), Predict (9 / 10),
       Render ''A'', Fetch ''binance'' ''B'', Predict (6 / 10), Predict (9 / 10), Render ''B'']"
  let ?m = "[(''A'', entry_A), (''B'', entry_B)]"
  have h0: "(if mock (init_app False) then (init_app False, [], Inr (run_mock_mode no_data_world))
             else run_inference_mode no_data_world demo_config demo_common (init_app False))
             = (loaded_app, ?tr0, Inr [])"
    by (simp add: app_defs world_defs demo_defs Let_def)
  have h1: "(if mock (init_app False) then (init_app False, [], Inr (run_mock_mode demo_world))
             else run_inference_mode demo_world demo_config demo_common (init_app False))
             = (loaded_app, ?tr1, Inr ?m)"
    by (simp add: app_defs world_defs demo_defs pipeline_defs Let_def)
  have h2: "(if mock (init_app False)
             then (init_app False, [], Inr (run_mock_mode publish_fail_world))
             else run_inference_mode publish_fail_world demo_config demo_common (init_app False))
             = (loaded_app, ?tr1, Inr ?m)"
    by (simp add: app_defs world_defs demo_defs pipeline_defs Let_def)
  have p: "publish demo_world ?m = Inr ''docs/index.html''"
    by (simp add: demo_world_def)
  have q: "publish publish_fail_world ?m = Inl OSError"
    by (simp add: publish_fail_world_def)
  have a: "run_forecast no_data_world demo_config demo_common (init_app False) =
     (loaded_app, ?tr0, False)"
    using publish_once_or_fail [OF h0] by simp
  have b: "run_forecast demo_world demo_config demo_common (init_app False) =
     (loaded_app, ?tr1 @ [Publish ?m], True)"
    using publish_once_or_fail [OF h1] p by simp
  have c: "run_forecast publish_fail_world demo_config demo_common (init_app False) =
     (loaded_app, ?tr1 @ [Publish ?m], False)"
    using publish_once_or_fail [OF h2] q by simp
  show ?thesis using a b c by simp
qed

section \<open>Mock mode\<close>

lemma set_update_cases:
  "(k, e) \<in> set (AList.update k' v al) \<Longrightarrow> (k = k' \<and> e = v) \<or> (k, e) \<in> set al"
  by (induction al) (auto split: if_splits)

lemma mock_loop_entries:
  "(k, e) \<in> set (mock_loop files m) \<Longrightarrow> (k, e) \<in> set m \<or> (k \<in> set files \<and> e = mock_entry k)"
proof (induction files arbitrary: m)
  case Nil
  then show ?case by simp
next
  case (Cons f files)
  from Cons.IH [of "AList.update f (mock_entry f) m"] Cons.prems
  have "(k, e) \<in> set (AList.update f (mock_entry f) m) \<or> (k \<in> set files \<and> e = mock_entry k)"
    by simp
  then show ?case using set_update_cases [of k e f "mock_entry f" m] by auto
qed

lemma mock_loop_keys: "fst ` set (mock_loop files m) = fst ` set m \<union> set files"
  by (induction files arbitrary: m) (auto simp: dom_update)

text \<open>
  C9. With the mock flag set, a cycle leaves the application state as it is and its trace
  holds no model load, no provider fetch and no predictor call: the trace is empty, or is
  the single publisher call when there are chart files. The report has one entry per PNG
  file of the chart directory, each with probabilities 0.5 and 0.5 and the path of that
  chart, and the whole cycle depends on the world through the chart directory and the
  publisher only, whatever the providers, the predictor and the configuration are.
\<close>

theorem mock_mode_no_provider_no_oracle:
  assumes "mock a"
  shows "\<exists>tr ok. run_forecast w cfg c a = (a, tr, ok)
      \<and> filter is_provider_or_oracle tr = []
      \<and> tr = (if run_mock_mode w = [] then [] else [Publish (run_mock_mode w)])
      \<and> fst ` set (run_mock_mode w) =
           (case charts_dir w of None \<Rightarrow> {} | Some chart_files \<Rightarrow> set chart_files)
      \<and> (\<forall>(smb, e) \<in> set (run_mock_mode w).
            entry_upside_prob e = 5 / 10 \<and> entry_vol_amp_prob e = 5 / 10
            \<and> entry_chart_path e = ''static/chart/'' @ smb @ ''.png'')
      \<and> (\<forall>w' cfg' c'. charts_dir w' = charts_dir w \<and> publish w' = publish w
            \<longrightarrow> run_forecast w' cfg' c' a = run_forecast w cfg c a)"
proof -
  let ?m = "run_mock_mode w"
  let ?tr = "if ?m = [] then [] else [Publish ?m]"
  have run: "\<exists>ok. run_forecast w cfg c a = (a, ?tr, ok)"
    using assms by (auto simp: run_forecast_def split: sum.splits)
  have quiet: "filter is_provider_or_oracle ?tr = []"
    by (simp add: is_provider_or_oracle_def)
  have keys: "fst ` set ?m = (case charts_dir w of None \<Rightarrow> {} | Some chart_files \<Rightarrow> set chart_files)"
    by (simp add: run_mock_mode_def mock_loop_keys split: option.splits)
  have entries: "\<forall>(smb, e) \<in> set ?m.
            entry_upside_prob e = 5 / 10 \<and> entry_vol_amp_prob e = 5 / 10
            \<and> entry_chart_path e = ''static/chart/'' @ smb @ ''.png''"
  proof (clarify)
    fix smb e assume "(smb, e) \<in> set ?m"
    then have "e = mock_entry smb"
      using mock_loop_entries [of smb e _ "[]"]
      by (auto simp: run_mock_mode_def split: option.splits)
    then show "entry_upside_prob e = 5 / 10 \<and> entry_vol_amp_prob e = 5 / 10
            \<and> entry_chart_path e = ''static/chart/'' @ smb @ ''.png''"
      by (simp add: mock_entry_def)
  qed
  have indep: "\<forall>w' cfg' c'. charts_dir w' = charts_dir w \<and> publish w' = publish w
            \<longrightarrow> run_forecast w' cfg' c' a = run_forecast w cfg c a"
    using assms by (simp add: run_forecast_def run_mock_mode_def)
  from run obtain ok where r: "run_forecast w cfg c a = (a, ?tr, ok)" by (elim exE)
  show ?thesis
    by (rule exI [of _ ?tr], rule exI [of _ ok]) (intro conjI r quiet refl keys entries indep)
qed

theorem mock_mode_no_provider_no_oracle_witness:
  "run_forecast demo_world demo_config demo_common (init_app True) =
     (init_app True, [Publish [(''A'', mock_entry ''A''), (''B'', mock_entry ''B'')]], True)
   \<and> run_forecast load_fail_world Map.empty demo_common (init_app True) =
     run_forecast demo_world demo_config demo_common (init_app True)"
proof -
  have h: "mock (init_app True)" by (simp add: init_app_def)
  have m: "run_mock_mode demo_world = [(''A'', mock_entry ''A''), (''B'', mock_entry ''B'')]"
    by (simp add: run_mock_mode_def demo_world_def)
  have p: "publish demo_world [(''A'', mock_entry ''A''), (''B'', mock_entry ''B'')]
             = Inr ''docs/index.html''"
    by (simp add: demo_world_def)
  obtain tr ok where
    r: "run_forecast demo_world demo_config demo_common (init_app True) = (init_app True, tr, ok)"
    and t: "tr = (if run_mock_mode demo_world = [] then []
                  else [Publish (run_mock_mode demo_world)])"
    and i: "\<forall>w' cfg' c'. charts_dir w' = charts_dir demo_world
              \<and> publish w' = publish demo_world
            \<longrightarrow> run_forecast w' cfg' c' (init_app True) =
                run_forecast demo_world demo_config demo_common (init_app True)"
    using mock_mode_no_provider_no_oracle [OF h, of demo_world demo_config demo_common]
    by (elim exE conjE)
  have "ok = True"
    using r m p h by (simp add: run_forecast_def)
  then have a: "run_forecast demo_world demo_config demo_common (init_app True) =
     (init_app True, [Publish [(''A'', mock_entry ''A''), (''B'', mock_entry ''B'')]], True)"
    using r t m by simp
  have "charts_dir load_fail_world = charts_dir demo_world
      \<and> publish load_fail_world = publish demo_world"
    by (simp add: load_fail_world_def)
  then have b: "run_forecast load_fail_world Map.empty demo_common (init_app True) =
     run_forecast demo_world demo_config demo_common (init_app True)"
    using i by blast
  show ?thesis using a b by (rule conjI)
qed

section \<open>Model loading across cycles\<close>






section \<open>Oracle and renderer failures\<close>

lemma make_prediction_first_call_fails:
  assumes "future_axis df ph itv = Inr axis"
    and "pred df axis ph (6 / 10) (9 / 10) np = Inl e"
  shows "make_prediction pred df ph np itv = ([Predict (6 / 10)], Inl e)"
  using assms by (simp add: make_prediction_def)

lemma make_prediction_second_call_fails:
  assumes "future_axis df ph itv = Inr axis"
    and "pred df axis ph (6 / 10) (9 / 10) np = Inr r"
    and "pred df axis ph (9 / 10) (9 / 10) np = Inl e"
  shows "make_prediction pred df ph np itv = ([Predict (6 / 10), Predict (9 / 10)], Inl e)"
  using assms by (cases r) (simp add: make_prediction_def)

lemma run_symbols_prediction_fails:
  assumes "fetch w src smb itv (hist_points c + vol_window c) = Some df" and "df \<noteq> []"
    and "make_prediction (predict w) (butlast df) (pred_horizon c) (n_predictions c) itv
           = (evs, Inl e)"
  shows "run_symbols w c src itv (smb # rest) tr metrics = (tr @ Fetch src smb # evs, Inl e)"
proof -
  have "run_for_symbol w (Some df) smb (pred_horizon c) (n_predictions c)
      (hist_points c) (vol_window c) itv = (evs, Inl e)"
    using assms by (simp add: run_for_symbol_def Let_def)
  then show ?thesis using assms by (simp add: Let_def)
qed

text \<open>
  C2. A failure of either predictor call for an instrument (the call at temperature 0.6 or,
  after that one returned, the call at temperature 0.9) aborts ensemble generation for that
  instrument, but nothing catches it per instrument: the per-instrument loop ends with that
  exception whatever instruments remain, the exception leaves the loop over the providers
  and the inference pass, and only the top of the cycle catches it, returning the failure
  signal without a publisher call. So the instruments after the failing one get no metrics
  and the cycle is aborted, against the claim.
\<close>

theorem oracle_failure_aborts_cycle:
  "(fetch w src smb itv (hist_points c + vol_window c) = Some df \<and> df \<noteq> []
      \<and> future_axis (butlast df) (pred_horizon c) itv = Inr axis
      \<and> predict w (butlast df) axis (pred_horizon c) (6 / 10) (9 / 10) (n_predictions c)
          = Inl e
     \<longrightarrow> run_symbols w c src itv (smb # rest) tr metrics =
           (tr @ [Fetch src smb, Predict (6 / 10)], Inl e))
   \<and> (fetch w src smb itv (hist_points c + vol_window c) = Some df \<and> df \<noteq> []
      \<and> future_axis (butlast df) (pred_horizon c) itv = Inr axis
      \<and> predict w (butlast df) axis (pred_horizon c) (6 / 10) (9 / 10) (n_predictions c)
          = Inr r
      \<and> predict w (butlast df) axis (pred_horizon c) (9 / 10) (9 / 10) (n_predictions c)
          = Inl e
     \<longrightarrow> run_symbols w c src itv (smb # rest) tr metrics =
           (tr @ [Fetch src smb, Predict (6 / 10), Predict (9 / 10)], Inl e))
   \<and> (cfg src = Some sc
      \<and> run_symbols w c src (interval sc) (map strip (split_comma (symbols sc))) tr metrics
          = (tr', Inl e)
     \<longrightarrow> run_sources w cfg c (src # others) tr metrics = (tr', Inl e))
   \<and> (ensure_model_loaded w a = (a1, evs0, Inr ()) \<and> artifacts a1
      \<and> run_sources w cfg c available evs0 [] = (tr', Inl e)
     \<longrightarrow> run_inference_mode w cfg c a = (a1, tr', Inl e))
   \<and> (\<not> mock a \<and> run_inference_mode w cfg c a = (a1, tr', Inl e)
     \<longrightarrow> run_forecast w cfg c a = (a1, tr', False) \<and> filter is_publish tr' = [])"
proof (intro conjI impI)
  assume h: "fetch w src smb itv (hist_points c + vol_window c) = Some df \<and> df \<noteq> []
      \<and> future_axis (butlast df) (pred_horizon c) itv = Inr axis
      \<and> predict w (butlast df) axis (pred_horizon c) (6 / 10) (9 / 10) (n_predictions c)
          = Inl e"
  then have "make_prediction (predict w) (butlast df) (pred_horizon c) (n_predictions c) itv
      = ([Predict (6 / 10)], Inl e)"
    by (intro make_prediction_first_call_fails [of _ _ _ axis]) simp_all
  then show "run_symbols w c src itv (smb # rest) tr metrics =
           (tr @ [Fetch src smb, Predict (6 / 10)], Inl e)"
    using h run_symbols_prediction_fails [of w src smb itv c df "[Predict (6 / 10)]" e rest tr
        metrics]
    by simp
next
  assume h: "fetch w src smb itv (hist_points c + vol_window c) = Some df \<and> df \<noteq> []
      \<and> future_axis (butlast df) (pred_horizon c) itv = Inr axis
      \<and> predict w (butlast df) axis (pred_horizon c) (6 / 10) (9 / 10) (n_predictions c)
          = Inr r
      \<and> predict w (butlast df) axis (pred_horizon c) (9 / 10) (9 / 10) (n_predictions c)
          = Inl e"
  then have "make_prediction (predict w) (butlast df) (pred_horizon c) (n_predictions c) itv
      = ([Predict (6 / 10), Predict (9 / 10)], Inl e)"
    by (intro make_prediction_second_call_fails [of _ _ _ axis _ _ r]) simp_all
  then show "run_symbols w c src itv (smb # rest) tr metrics =
           (tr @ [Fetch src smb, Predict (6 / 10), Predict (9 / 10)], Inl e)"
    using h run_symbols_prediction_fails [of w src smb itv c df
        "[Predict (6 / 10), Predict (9 / 10)]" e rest tr metrics]
    by simp
next
  assume "cfg src = Some sc
      \<and> run_symbols w c src (interval sc) (map strip (split_comma (symbols sc))) tr metrics
          = (tr', Inl e)"
  then show "run_sources w cfg c (src # others) tr metrics = (tr', Inl e)"
    by simp
next
  assume "ensure_model_loaded w a = (a1, evs0, Inr ()) \<and> artifacts a1
      \<and> run_sources w cfg c available evs0 [] = (tr', Inl e)"
  then show "run_inference_mode w cfg c a = (a1, tr', Inl e)"
    by (simp add: run_inference_mode_def)
next
  assume h: "\<not> mock a \<and> run_inference_mode w cfg c a = (a1, tr', Inl e)"
  then show "run_forecast w cfg c a = (a1, tr', False)"
    by (simp add: run_forecast_def)
  from h run_inference_mode_trace [of w cfg c a a1 tr' "Inl e"] obtain evs1
    where "tr' = (if \<not> model_loaded a \<and> \<not> mock a then [LoadModel] else []) @ evs1"
      and "list_all is_instrument_event evs1" by blast
  then show "filter is_publish tr' = []"
    using instrument_events_filter(1) [of evs1] by (simp add: is_publish_def)
qed

theorem oracle_failure_aborts_cycle_witness:
  "run_forecast oracle_fail_world demo_config demo_common (init_app False) =
     (loaded_app, [LoadModel, Fetch ''binance'' ''A'', Predict (6 / 10)], False)
   \<and> run_symbols oracle_fail_hot_world demo_common ''binance'' ''1h'' [''A'', ''B'']
       [LoadModel] [] =
     ([LoadModel, Fetch ''binance'' ''A'', Predict (6 / 10), Predict (9 / 10)],
      Inl OracleError)
   \<and> run_forecast oracle_fail_hot_world demo_config demo_common (init_app False) =
     (loaded_app,
      [LoadModel, Fetch ''binance'' ''A'', Predict (6 / 10), Predict (9 / 10)], False)
   \<and> snd (run_symbols oracle_fail_world demo_common ''binance'' ''1h'' [''B''] [] []) =
       Inr [(''B'', entry_B)]
   \<and> snd (run_symbols oracle_fail_hot_world demo_common ''binance'' ''1h'' [''B''] [] []) =
       Inr [(''B'', entry_B)]"
proof -
  let ?w = oracle_fail_world
  let ?v = oracle_fail_hot_world
  let ?tr = "[LoadModel, Fetch ''binance'' ''A'', Predict (6 / 10)]"
  let ?tv = "[LoadModel, Fetch ''binance'' ''A'', Predict (6 / 10), Predict (9 / 10)]"
  let ?sc = "\<lparr>symbols = ''A, B'', interval = ''1h''\<rparr>"
  let ?axis = "[2 + 3600000000000, 2 + 2 * 3600000000000]"
  note steps = oracle_failure_aborts_cycle [of ?w "''binance''" "''A''" "''1h''" demo_common
      "flat_frame 1" ?axis OracleError "[''B'']" "[LoadModel]" "[]" "([[2, 4]], [[1, 1]])"
      demo_config ?sc ?tr "[''akshare'']" "init_app False" loaded_app "[LoadModel]"]
  note hot = oracle_failure_aborts_cycle [of ?v "''binance''" "''A''" "''1h''" demo_common
      "flat_frame 1" ?axis OracleError "[''B'']" "[LoadModel]" "[]" "([[2, 4]], [[1, 1]])"
      demo_config ?sc ?tv "[''akshare'']" "init_app False" loaded_app "[LoadModel]"]
  have parse: "map strip (split_comma (symbols ?sc)) = [''A'', ''B'']"
    by (simp add: strip_def is_space_def)
  have h4: "\<not> mock (init_app False)" by (simp add: init_app_def)
  have h1: "fetch ?w ''binance'' ''A'' ''1h'' (hist_points demo_common + vol_window demo_common)
        = Some (flat_frame 1) \<and> flat_frame 1 \<noteq> []
      \<and> future_axis (butlast (flat_frame 1)) (pred_horizon demo_common) ''1h'' = Inr ?axis
      \<and> predict ?w (butlast (flat_frame 1)) ?axis (pred_horizon demo_common) (6 / 10) (9 / 10)
          (n_predictions demo_common) = Inl OracleError"
    by (simp add: world_defs demo_defs pipeline_defs date_range_2 Let_def)
  have s1: "run_symbols ?w demo_common ''binance'' ''1h'' [''A'', ''B''] [LoadModel] [] =
      (?tr, Inl OracleError)"
    using steps h1 by simp
  have h2: "demo_config ''binance'' = Some ?sc
      \<and> run_symbols ?w demo_common ''binance'' (interval ?sc)
           (map strip (split_comma (symbols ?sc))) [LoadModel] [] = (?tr, Inl OracleError)"
    using s1 parse by (simp add: demo_config_def)
  have s2: "run_sources ?w demo_config demo_common (''binance'' # [''akshare'']) [LoadModel] []
      = (?tr, Inl OracleError)"
    using steps h2 by blast
  have h3: "ensure_model_loaded ?w (init_app False) = (loaded_app, [LoadModel], Inr ())
      \<and> artifacts loaded_app
      \<and> run_sources ?w demo_config demo_common available [LoadModel] [] = (?tr, Inl OracleError)"
    using s2 by (simp add: ensure_model_loaded_def init_app_def world_defs demo_world_def
        available_def)
  have s3: "run_inference_mode ?w demo_config demo_common (init_app False) =
      (loaded_app, ?tr, Inl OracleError)"
    using steps h3 by blast
  have s4: "run_forecast ?w demo_config demo_common (init_app False) = (loaded_app, ?tr, False)"
    using steps h4 s3 by blast
  have g1: "fetch ?v ''binance'' ''A'' ''1h'' (hist_points demo_common + vol_window demo_common)
        = Some (flat_frame 1) \<and> flat_frame 1 \<noteq> []
      \<and> future_axis (butlast (flat_frame 1)) (pred_horizon demo_common) ''1h'' = Inr ?axis
      \<and> predict ?v (butlast (flat_frame 1)) ?axis (pred_horizon demo_common) (6 / 10) (9 / 10)
          (n_predictions demo_common) = Inr ([[2, 4]], [[1, 1]])
      \<and> predict ?v (butlast (flat_frame 1)) ?axis (pred_horizon demo_common) (9 / 10) (9 / 10)
          (n_predictions demo_common) = Inl OracleError"
    by (simp add: world_defs demo_defs pipeline_defs date_range_2 Let_def)
  have t1: "run_symbols ?v demo_common ''binance'' ''1h'' [''A'', ''B''] [LoadModel] [] =
      (?tv, Inl OracleError)"
    using hot g1 by simp
  have g2: "demo_config ''binance'' = Some ?sc
      \<and> run_symbols ?v demo_common ''binance'' (interval ?sc)
           (map strip (split_comma (symbols ?sc))) [LoadModel] [] = (?tv, Inl OracleError)"
    using t1 parse by (simp add: demo_config_def)
  have t2: "run_sources ?v demo_config demo_common (''binance'' # [''akshare'']) [LoadModel] []
      = (?tv, Inl OracleError)"
    using hot g2 by blast
  have g3: "ensure_model_loaded ?v (init_app False) = (loaded_app, [LoadModel], Inr ())
      \<and> artifacts loaded_app
      \<and> run_sources ?v demo_config demo_common available [LoadModel] [] = (?tv, Inl OracleError)"
    using t2 by (simp add: ensure_model_loaded_def init_app_def world_defs demo_world_def
        available_def)
  have t3: "run_inference_mode ?v demo_config demo_common (init_app False) =
      (loaded_app, ?tv, Inl OracleError)"
    using hot g3 by blast
  have t4: "run_forecast ?v demo_config demo_common (init_app False) = (loaded_app, ?tv, False)"
    using hot h4 t3 by blast
  have b1: "snd (run_symbols ?w demo_common ''binance'' ''1h'' [''B''] [] []) =
       Inr [(''B'', entry_B)]"
    by (simp add: world_defs demo_defs pipeline_defs Let_def)
  have b2: "snd (run_symbols ?v demo_common ''binance'' ''1h'' [''B''] [] []) =
       Inr [(''B'', entry_B)]"
    by (simp add: world_defs demo_defs pipeline_defs Let_def)
  show ?thesis using s4 t1 t4 b1 b2 by (intro conjI)
qed

text \<open>
  C1. \<open>create_plot\<close> catches its own exceptions and returns no path, but \<open>run_for_symbol\<close> still
  returns a result, and reading the path of that result raises in the per-instrument loop,
  outside any handler of the loop. With the renderer failing for A only, the cycle ends
  at A: B is never fetched, nothing is published and the cycle returns the failure signal.
\<close>

theorem renderer_failure_aborts_cycle:
  "snd (run_for_symbol render_fail_world (Some (flat_frame 1)) ''A'' 2 1 2 2 ''1h'') =
     Inr (Some \<lparr>upside_prob = 1, vol_amp_prob = 0, chart_path = None\<rparr>)
   \<and> run_symbols render_fail_world demo_common ''binance'' ''1h'' [''A'', ''B''] [] [] =
     ([Fetch ''binance'' ''A'', Predict (6 / 10), Predict (9 / 10), Render ''A''],
      Inl AttributeError)
   \<and> run_forecast render_fail_world demo_config demo_common (init_app False) =
     (loaded_app,
      [LoadModel, Fetch ''binance'' ''A'', Predict (6 / 10), Predict (9 / 10), Render ''A''],
      False)
   \<and> snd (run_symbols render_fail_world demo_common ''binance'' ''1h'' [''B''] [] []) =
       Inr [(''B'', entry_B)]"
  by (simp add: app_defs world_defs demo_defs pipeline_defs Let_def)

end
